theory Spec2Isabelle
  imports Main "HOL-Library.Multiset" "HOL-Library.AList"
begin

section \<open>The vector plotter of \<open>3_3_2_2_plot_spatial_data.py\<close>\<close>

text \<open>
  The embedding follows class \<open>SimpleVectorPlotter\<close>. Python exceptions are values of
  \<open>error\<close>; a function that can raise returns \<open>error + 'a\<close> with \<open>Inl\<close> for the
  exception. Coordinates range over any linearly ordered integral domain (\<open>int\<close> for
  Python's integers, \<open>real\<close> for exact reals): arithmetic is exact, the rounding of
  floating-point coordinates is not part of the model.
\<close>

subsection \<open>Exceptions\<close>

datatype error = IndexError | KeyError | ValueError | AttributeError | RuntimeError

subsection \<open>Ring orientation: \<open>_clockwise\<close> and \<open>_order_vertices\<close>\<close>

type_synonym 'a point = "'a \<times> 'a"

text \<open>
  The body of the \<open>for x, y in data[1:]\<close> loop of \<open>_clockwise\<close>: the running total and
  the previous point \<open>(x1, y1)\<close> are the loop state.
\<close>

fun clockwise_loop :: "'a::linordered_idom \<Rightarrow> 'a point \<Rightarrow> 'a point list \<Rightarrow> 'a \<times> 'a point" where
  "clockwise_loop tot (x1, y1) [] = (tot, (x1, y1))"
| "clockwise_loop tot (x1, y1) ((x, y) # rest) =
     clockwise_loop (tot + (x - x1) * (y + y1)) (x, y) rest"

text \<open>
  The value of \<open>total\<close> when \<open>_clockwise\<close> reaches its \<open>return\<close>: the loop over
  \<open>data[1:]\<close> and the closing term from the last point back to \<open>data[0]\<close>.
  \<open>data[0]\<close> raises \<open>IndexError\<close> on the empty list.
\<close>

definition shoelace_total :: "'a::linordered_idom point list \<Rightarrow> error + 'a" where
  "shoelace_total data =
     (case data of
        [] \<Rightarrow> Inl IndexError
      | (x0, y0) # rest \<Rightarrow>
          (case clockwise_loop 0 (x0, y0) rest of
             (tot, (x1, y1)) \<Rightarrow> Inr (tot + (x0 - x1) * (y0 + y1))))"

text \<open>\<open>_clockwise\<close>: \<open>return total > 0\<close>.\<close>

definition clockwise :: "'a::linordered_idom point list \<Rightarrow> error + bool" where
  "clockwise data =
     (case shoelace_total data of Inl e \<Rightarrow> Inl e | Inr tot \<Rightarrow> Inr (tot > 0))"

text \<open>
  \<open>_order_vertices\<close>. The statement
  \<open>self._clockwise(data) != clockwise or data.reverse()\<close> runs \<open>data.reverse()\<close> only
  when the left operand is false, that is when \<open>_clockwise(data)\<close> equals the
  requested flag. Then the ring is closed: \<open>data[0]\<close> is appended when it differs from
  \<open>data[-1]\<close>. The list is mutated in place and returned; the model returns the new
  value.
\<close>

definition order_vertices :: "'a::linordered_idom point list \<Rightarrow> bool \<Rightarrow> error + 'a point list" where
  "order_vertices data want_clockwise =
     (case clockwise data of
        Inl e \<Rightarrow> Inl e
      | Inr c \<Rightarrow>
          (let data1 = (if c \<noteq> want_clockwise then data else rev data) in
           case data1 of
             [] \<Rightarrow> Inl IndexError
           | p # _ \<Rightarrow> Inr (if p \<noteq> last data1 then data1 @ [p] else data1)))"

subsection \<open>Path building: \<open>_codes\<close> and \<open>_plot_polygon\<close>\<close>

text \<open>The path instruction codes of \<open>matplotlib.path.Path\<close>.\<close>

definition MOVETO :: nat where "MOVETO = 1"
definition LINETO :: nat where "LINETO = 2"

text \<open>
  \<open>_codes\<close>: \<open>np.ones(len(data)) * Path.LINETO\<close>, then \<open>codes[0] = Path.MOVETO\<close>, which
  raises \<open>IndexError\<close> on an array of length 0.
\<close>

definition codes :: "'b list \<Rightarrow> error + nat list" where
  "codes data =
     (let cs = map (\<lambda>one. one * LINETO) (replicate (length data) 1) in
      if 0 < length cs then Inr (cs[0 := MOVETO]) else Inl IndexError)"

text \<open>A list comprehension over a function that can raise: the first exception ends it.\<close>

fun comprehension :: "('b \<Rightarrow> error + 'c) \<Rightarrow> 'b list \<Rightarrow> error + 'c list" where
  "comprehension f [] = Inr []"
| "comprehension f (d # ds) =
     (case f d of
        Inl e \<Rightarrow> Inl e
      | Inr r \<Rightarrow> (case comprehension f ds of Inl e \<Rightarrow> Inl e | Inr rs \<Rightarrow> Inr (r # rs)))"

text \<open>
  The path computed by \<open>_plot_polygon\<close> (its first four statements): the pair of the
  vertex array and the code array handed to \<open>Path(vertices, codes)\<close>. \<open>data[0]\<close> is the
  outer ring, \<open>data[1:]\<close> the holes; the rings are taken to be distinct list objects.
\<close>

definition polygon_path :: "'a::linordered_idom point list list \<Rightarrow> error + ('a point list \<times> nat list)" where
  "polygon_path data =
     (case data of
        [] \<Rightarrow> Inl IndexError
      | d0 # ds \<Rightarrow>
          (case order_vertices d0 True of
             Inl e \<Rightarrow> Inl e
           | Inr outer \<Rightarrow>
               (case comprehension (\<lambda>d. order_vertices d False) ds of
                  Inl e \<Rightarrow> Inl e
                | Inr inner \<Rightarrow>
                    (let vertices = concat (outer # inner) in
                     case codes outer of
                       Inl e \<Rightarrow> Inl e
                     | Inr c0 \<Rightarrow>
                         (case comprehension codes inner of
                            Inl e \<Rightarrow> Inl e
                          | Inr cs \<Rightarrow> Inr (vertices, concat (c0 # cs)))))))"

subsection \<open>Artists, layers and the plotter's state\<close>

text \<open>
  The drawable objects are matplotlib artists. The code tells three classes apart,
  \<open>mpl.lines.Line2D\<close> (what \<open>plt.plot\<close> returns), \<open>mpl.patches.Polygon\<close> and
  \<open>mpl.patches.PathPatch\<close> (what \<open>_plot_polygon\<close> creates). \<open>OtherArtist c x\<close> is any
  other class, with its name \<open>c\<close> and with \<open>x\<close> telling whether the class provides
  \<open>get_xdata\<close> (a subclass of \<open>Line2D\<close> does, and \<open>type(...) is Line2D\<close> is false for
  it); one class has one \<open>x\<close>. An artist is a mutable object that the registry and the
  axes share, so the state holds a store from handles to artists, and the registry and
  the axes hold handles. \<open>style\<close> is what \<open>update_from\<close> copies.
\<close>

datatype artist_class = Line2D | Polygon | PathPatch | OtherArtist string bool

record ('x, 's) artist =
  artist_class :: artist_class
  xdata :: "'x list"
  style :: 's

type_synonym handle = nat

text \<open>
  A key of the dictionary \<open>self._graphics\<close>: the name the caller gave, or the ordinal
  \<open>len(self._graphics)\<close> that \<open>_set_graphics\<close> assigns to a layer without a name.
\<close>

datatype layer_name = Name string | Ordinal nat

text \<open>
  The fields of the plotter and of the figure that the modelled methods read and
  write: \<open>self._graphics\<close> (an association list with distinct keys, in insertion order),
  the lines and the patches attached to the axes of the figure, the store of artists
  with the next free handle, \<open>self.colors\<close> (a list of dictionaries) and
  \<open>self.current_color\<close>.

  \<open>hide\<close>, \<open>show\<close> and \<open>_plot_polygon\<close> reach the axes through \<open>plt.axes()\<close>. What that
  call returns is the library's matter and a parameter of the model, \<open>axes_reused\<close>:
  in the matplotlib the code was written for (before 3.4) it is the current axes, the
  one that holds the artists; from 3.4 on every call adds a new, empty axes to the
  figure.
\<close>

record ('x, 's) plotter =
  graphics :: "(layer_name \<times> handle list) list"
  axes_lines :: "handle list"
  axes_patches :: "handle list"
  axes_reused :: bool
  artists :: "handle \<Rightarrow> ('x, 's) artist"
  next_handle :: handle
  colors :: "(string \<times> string) list list"
  current_color :: int

subsection \<open>\<open>hide\<close>, \<open>show\<close> and \<open>remove\<close>\<close>

text \<open>
  \<open>for graphic in graphics: container.remove(graphic)\<close>: \<open>list.remove\<close> deletes the
  first occurrence and raises \<open>ValueError\<close> when there is none, which ends the loop
  with the removals made so far.
\<close>

fun remove_each :: "handle list \<Rightarrow> handle list \<Rightarrow> error option \<times> handle list" where
  "remove_each [] container = (None, container)"
| "remove_each (g # gs) container =
     (if g \<in> set container then remove_each gs (remove1 g container)
      else (Some ValueError, container))"

text \<open>
  The loop of \<open>hide\<close> over \<open>plt.axes().lines\<close> (or \<open>.patches\<close>). Where \<open>plt.axes()\<close> is the
  axes that holds the artists, the removals are made on its list. Where it is a new
  axes, the list is empty: the first \<open>remove\<close> raises \<open>ValueError\<close> and the list of the
  axes that holds the artists is left as it is.
\<close>

definition detach_each :: "bool \<Rightarrow> handle list \<Rightarrow> handle list \<Rightarrow> error option \<times> handle list" where
  "detach_each reused gs container =
     (if reused then remove_each gs container
      else (case remove_each gs [] of (e, _) \<Rightarrow> (e, container)))"

text \<open>
  The body of the \<open>try\<close> of \<open>hide\<close>. The result is the exception raised, if any, and the
  state at that moment.
\<close>

definition hide_body :: "layer_name \<Rightarrow> ('x, 's) plotter \<Rightarrow> error option \<times> ('x, 's) plotter" where
  "hide_body name s =
     (case map_of (graphics s) name of
        None \<Rightarrow> (Some KeyError, s)
      | Some gs \<Rightarrow>
          (case gs of
             [] \<Rightarrow> (Some IndexError, s)
           | g0 # _ \<Rightarrow>
               (case artist_class (artists s g0) of
                  Line2D \<Rightarrow>
                    (case detach_each (axes_reused s) gs (axes_lines s) of
                       (e, c) \<Rightarrow> (e, s\<lparr>axes_lines := c\<rparr>))
                | Polygon \<Rightarrow>
                    (case detach_each (axes_reused s) gs (axes_patches s) of
                       (e, c) \<Rightarrow> (e, s\<lparr>axes_patches := c\<rparr>))
                | PathPatch \<Rightarrow>
                    (case detach_each (axes_reused s) gs (axes_patches s) of
                       (e, c) \<Rightarrow> (e, s\<lparr>axes_patches := c\<rparr>))
                | OtherArtist _ _ \<Rightarrow> (Some RuntimeError, s))))"

text \<open>\<open>hide\<close>: \<open>except (KeyError, ValueError): pass\<close>; any other exception propagates.\<close>

definition hide :: "layer_name \<Rightarrow> ('x, 's) plotter \<Rightarrow> error option \<times> ('x, 's) plotter" where
  "hide name s =
     (case hide_body name s of
        (None, s') \<Rightarrow> (None, s')
      | (Some e, s') \<Rightarrow> if e = KeyError \<or> e = ValueError then (None, s') else (Some e, s'))"

text \<open>
  \<open>for graphic in graphics: plt.axes().add_line(graphic)\<close> (or \<open>add_patch\<close>). Where
  \<open>plt.axes()\<close> is the axes that holds the artists, each call appends the artist to
  its list. Where it is a new axes, the first call raises \<open>ValueError\<close>: an artist of
  the registry already belongs to an axes, and matplotlib refuses to put it on
  another one.
\<close>

definition add_each :: "handle list \<Rightarrow> handle list \<Rightarrow> handle list" where
  "add_each gs container = foldl (\<lambda>c g. c @ [g]) container gs"

definition attach_each :: "bool \<Rightarrow> handle list \<Rightarrow> handle list \<Rightarrow> error option \<times> handle list" where
  "attach_each reused gs container =
     (if reused then (None, add_each gs container)
      else (case gs of [] \<Rightarrow> (None, container) | _ # _ \<Rightarrow> (Some ValueError, container)))"

definition show_body :: "layer_name \<Rightarrow> ('x, 's) plotter \<Rightarrow> error option \<times> ('x, 's) plotter" where
  "show_body name s =
     (case map_of (graphics s) name of
        None \<Rightarrow> (Some KeyError, s)
      | Some gs \<Rightarrow>
          (case gs of
             [] \<Rightarrow> (Some IndexError, s)
           | g0 # _ \<Rightarrow>
               (case artist_class (artists s g0) of
                  Line2D \<Rightarrow>
                    (case attach_each (axes_reused s) gs (axes_lines s) of
                       (e, c) \<Rightarrow> (e, s\<lparr>axes_lines := c\<rparr>))
                | Polygon \<Rightarrow>
                    (case attach_each (axes_reused s) gs (axes_patches s) of
                       (e, c) \<Rightarrow> (e, s\<lparr>axes_patches := c\<rparr>))
                | PathPatch \<Rightarrow>
                    (case attach_each (axes_reused s) gs (axes_patches s) of
                       (e, c) \<Rightarrow> (e, s\<lparr>axes_patches := c\<rparr>))
                | OtherArtist _ _ \<Rightarrow> (Some RuntimeError, s))))"

text \<open>\<open>show\<close>: \<open>except KeyError: pass\<close>.\<close>

definition show_layer :: "layer_name \<Rightarrow> ('x, 's) plotter \<Rightarrow> error option \<times> ('x, 's) plotter" where
  "show_layer name s =
     (case show_body name s of
        (None, s') \<Rightarrow> (None, s')
      | (Some e, s') \<Rightarrow> if e = KeyError then (None, s') else (Some e, s'))"

text \<open>\<open>remove\<close>: \<open>self.hide(name)\<close>, then \<open>del self._graphics[name]\<close>, under \<open>except KeyError: pass\<close>.\<close>

definition remove_body :: "layer_name \<Rightarrow> ('x, 's) plotter \<Rightarrow> error option \<times> ('x, 's) plotter" where
  "remove_body name s =
     (case hide name s of
        (Some e, s') \<Rightarrow> (Some e, s')
      | (None, s') \<Rightarrow>
          (case map_of (graphics s') name of
             None \<Rightarrow> (Some KeyError, s')
           | Some _ \<Rightarrow> (None, s'\<lparr>graphics := AList.delete name (graphics s')\<rparr>)))"

definition remove_layer :: "layer_name \<Rightarrow> ('x, 's) plotter \<Rightarrow> error option \<times> ('x, 's) plotter" where
  "remove_layer name s =
     (case remove_body name s of
        (None, s') \<Rightarrow> (None, s')
      | (Some e, s') \<Rightarrow> if e = KeyError then (None, s') else (Some e, s'))"

subsection \<open>\<open>_same_type\<close> and \<open>_set_graphics\<close>\<close>

text \<open>
  \<open>get_xdata\<close> is a method of \<open>Line2D\<close> and of the other classes that provide it.
  The patch classes of matplotlib do not have it (which is why \<open>_same_type\<close> answers
  for \<open>Polygon\<close> before it asks): there the call raises \<open>AttributeError\<close>.
\<close>

definition get_xdata :: "('x, 's) artist \<Rightarrow> error + 'x list" where
  "get_xdata a =
     (case artist_class a of
        Line2D \<Rightarrow> Inr (xdata a)
      | Polygon \<Rightarrow> Inl AttributeError
      | PathPatch \<Rightarrow> Inl AttributeError
      | OtherArtist _ has_xdata \<Rightarrow> if has_xdata then Inr (xdata a) else Inl AttributeError)"

definition same_type :: "('x, 's) artist \<Rightarrow> ('x, 's) artist \<Rightarrow> error + bool" where
  "same_type graphic1 graphic2 =
     (if artist_class graphic1 \<noteq> artist_class graphic2 then Inr False
      else if artist_class graphic1 = Polygon then Inr True
      else
        (case get_xdata graphic1 of
           Inl e \<Rightarrow> Inl e
         | Inr x1 \<Rightarrow>
             (case get_xdata graphic2 of
                Inl e \<Rightarrow> Inl e
              | Inr x2 \<Rightarrow>
                  if length x1 = length x2 then Inr True
                  else Inr (length x1 > 1 \<and> length x2 > 1))))"

text \<open>\<open>graphic.update_from(styled_graphic)\<close> copies the style of the other artist.\<close>

definition update_from :: "handle \<Rightarrow> handle \<Rightarrow> ('x, 's) plotter \<Rightarrow> ('x, 's) plotter" where
  "update_from graphic styled_graphic s =
     s\<lparr>artists := (artists s)
          (graphic := (artists s graphic)\<lparr>style := style (artists s styled_graphic)\<rparr>)\<rparr>"

fun update_each :: "handle list \<Rightarrow> handle \<Rightarrow> ('x, 's) plotter \<Rightarrow> ('x, 's) plotter" where
  "update_each [] styled_graphic s = s"
| "update_each (g # gs) styled_graphic s = update_each gs styled_graphic (update_from g styled_graphic s)"

text \<open>Python's truth value of a name: the empty string and \<open>0\<close> are false.\<close>

fun truthy :: "layer_name \<Rightarrow> bool" where
  "truthy (Name n) = (n \<noteq> [])"
| "truthy (Ordinal k) = (k \<noteq> 0)"

text \<open>\<open>self._graphics[name] = graphics\<close>.\<close>

definition store_graphics :: "layer_name \<Rightarrow> handle list \<Rightarrow> ('x, 's) plotter \<Rightarrow> ('x, 's) plotter" where
  "store_graphics name gs s = s\<lparr>graphics := AList.update name gs (graphics s)\<rparr>"

text \<open>
  \<open>_set_graphics\<close>. \<open>has_symbol\<close> is the truth value of the third argument. The
  condition \<open>not has_symbol and self._same_type(graphics[0], self._graphics[name][0])\<close>
  evaluates its right operand only when \<open>has_symbol\<close> is false; \<open>graphics[0]\<close> and
  \<open>self._graphics[name][0]\<close> raise \<open>IndexError\<close> on an empty list.
\<close>

definition set_graphics ::
  "handle list \<Rightarrow> layer_name \<Rightarrow> bool \<Rightarrow> ('x, 's) plotter \<Rightarrow> error option \<times> ('x, 's) plotter" where
  "set_graphics gs name0 has_symbol s =
     (let name = (if truthy name0 then name0 else Ordinal (length (graphics s))) in
      case map_of (graphics s) name of
        None \<Rightarrow> (None, store_graphics name gs s)
      | Some _ \<Rightarrow>
          (case hide name s of
             (Some e, s1) \<Rightarrow> (Some e, s1)
           | (None, s1) \<Rightarrow>
               if has_symbol then (None, store_graphics name gs s1)
               else
                 (case gs of
                    [] \<Rightarrow> (Some IndexError, s1)
                  | g0 # _ \<Rightarrow>
                      (case map_of (graphics s1) name of
                         None \<Rightarrow> (Some KeyError, s1)
                       | Some [] \<Rightarrow> (Some IndexError, s1)
                       | Some (styled_graphic # _) \<Rightarrow>
                           (case same_type (artists s1 g0) (artists s1 styled_graphic) of
                              Inl e \<Rightarrow> (Some e, s1)
                            | Inr True \<Rightarrow>
                                (None, store_graphics name gs (update_each gs styled_graphic s1))
                            | Inr False \<Rightarrow> (None, store_graphics name gs s1))))))"

subsection \<open>The colour rotation and \<open>plot_polygon\<close>\<close>

text \<open>Python's list indexing: a negative index counts from the end.\<close>

definition py_index :: "'b list \<Rightarrow> int \<Rightarrow> error + 'b" where
  "py_index xs i =
     (if 0 \<le> i \<and> i < int (length xs) then Inr (xs ! nat i)
      else if i < 0 \<and> - int (length xs) \<le> i then Inr (xs ! nat (int (length xs) + i))
      else Inl IndexError)"

text \<open>
  \<open>_init_colors\<close>, the branch for matplotlib 1.5 and later; the argument is the value
  of \<open>list(mpl.rcParams['axes.prop_cycle'])\<close>.
\<close>

definition init_colors :: "(string \<times> string) list list \<Rightarrow> ('x, 's) plotter \<Rightarrow> ('x, 's) plotter" where
  "init_colors prop_cycle s = s\<lparr>colors := prop_cycle, current_color := - 1\<rparr>"

text \<open>\<open>_next_color_new\<close>; the entry \<open>['color']\<close> raises \<open>KeyError\<close> when the key is missing.\<close>

definition next_color_new :: "('x, 's) plotter \<Rightarrow> (error + string) \<times> ('x, 's) plotter" where
  "next_color_new s =
     (let c = current_color s + 1;
          c' = (if c \<ge> int (length (colors s)) then 0 else c);
          s' = s\<lparr>current_color := c'\<rparr>
      in case py_index (colors s') c' of
           Inl e \<Rightarrow> (Inl e, s')
         | Inr entry \<Rightarrow>
             (case map_of entry ''color'' of
                None \<Rightarrow> (Inl KeyError, s')
              | Some col \<Rightarrow> (Inr col, s')))"

text \<open>The results of \<open>n\<close> successive calls of \<open>_next_color\<close>.\<close>

fun color_run :: "nat \<Rightarrow> ('x, 's) plotter \<Rightarrow> (error + string) list" where
  "color_run 0 s = []"
| "color_run (Suc n) s = (case next_color_new s of (r, s') \<Rightarrow> r # color_run n s')"

text \<open>
  \<open>plot_polygon\<close>. The keyword arguments are an association list and become the style
  of the patch. \<open>has_symbol\<close> is computed before the fill colour is added. The patch
  that \<open>_plot_polygon\<close> creates is a new artist of class \<open>PathPatch\<close>;
  \<open>plt.axes().add_patch(patch)\<close> attaches it to an axes of the figure, the current one
  or a new one, so it joins the attached patches.
\<close>

definition plot_polygon ::
  "'a::linordered_idom point list list \<Rightarrow> string \<Rightarrow> layer_name \<Rightarrow> (string \<times> string) list \<Rightarrow>
   ('x, (string \<times> string) list) plotter \<Rightarrow> error option \<times> ('x, (string \<times> string) list) plotter" where
  "plot_polygon data color name kwargs s =
     (let has_symbol = (color \<noteq> [] \<or> kwargs \<noteq> []) in
      case (if ''facecolor'' \<in> fst ` set kwargs \<or> ''fc'' \<in> fst ` set kwargs
            then (Inr kwargs, s)
            else if color \<noteq> [] then (Inr (AList.update ''fc'' color kwargs), s)
            else (case next_color_new s of
                    (Inl e, s') \<Rightarrow> (Inl e, s')
                  | (Inr c, s') \<Rightarrow> (Inr (AList.update ''fc'' c kwargs), s'))) of
        (Inl e, s1) \<Rightarrow> (Some e, s1)
      | (Inr kw, s1) \<Rightarrow>
          (case polygon_path data of
             Inl e \<Rightarrow> (Some e, s1)
           | Inr path \<Rightarrow>
               (let patch = next_handle s1;
                    s2 = s1\<lparr>artists := (artists s1)
                              (patch := \<lparr>artist_class = PathPatch, xdata = [], style = kw\<rparr>),
                            next_handle := patch + 1,
                            axes_patches := axes_patches s1 @ [patch]\<rparr>
                in set_graphics [patch] name has_symbol s2)))"

subsection \<open>Auxiliary notions for the proofs\<close>

text \<open>
  The sum of \<open>(x - x1) * (y + y1)\<close> over the consecutive pairs of an open path, and
  the same sum over a ring taken with its edge from the last point back to the first.
\<close>

fun psum :: "'a::linordered_idom point list \<Rightarrow> 'a" where
  "psum [] = 0"
| "psum [p] = 0"
| "psum (p # q # r) = (fst q - fst p) * (snd q + snd p) + psum (q # r)"

definition ring_sum :: "'a::linordered_idom point list \<Rightarrow> 'a" where
  "ring_sum data = psum (data @ [hd data])"


text \<open>
  An artist is attached when it is on the list of the axes that belongs to its class;
  \<open>canvas_count\<close> is the number of times the axes hold it.
\<close>

definition attached :: "('x, 's) plotter \<Rightarrow> handle \<Rightarrow> bool" where
  "attached s g =
     (case artist_class (artists s g) of
        Line2D \<Rightarrow> g \<in> set (axes_lines s)
      | Polygon \<Rightarrow> g \<in> set (axes_patches s)
      | PathPatch \<Rightarrow> g \<in> set (axes_patches s)
      | OtherArtist _ _ \<Rightarrow> False)"

definition canvas_count :: "('x, 's) plotter \<Rightarrow> handle \<Rightarrow> nat" where
  "canvas_count s g = count_list (axes_lines s) g + count_list (axes_patches s) g"

subsection \<open>Example states\<close>

text \<open>
  A plotter with two layers: \<open>mixed\<close>, the line \<open>0\<close> and the patch \<open>1\<close> of a geometry
  collection holding a point and a polygon, and \<open>roads\<close>, the two lines \<open>2\<close> and \<open>3\<close>.
  All four artists are attached, and \<open>plt.axes()\<close> is the axes that holds them.
\<close>

definition example_artists :: "handle \<Rightarrow> (int, string) artist" where
  "example_artists h =
     (if h = 0 then \<lparr>artist_class = Line2D, xdata = [5], style = ''bo''\<rparr>
      else if h = 1 then \<lparr>artist_class = PathPatch, xdata = [], style = ''fc=C0''\<rparr>
      else if h = 2 then \<lparr>artist_class = Line2D, xdata = [0, 1], style = ''r-''\<rparr>
      else if h = 3 then \<lparr>artist_class = Line2D, xdata = [1, 2, 3], style = ''r-''\<rparr>
      else \<lparr>artist_class = OtherArtist ''Text'' False, xdata = [], style = []\<rparr>)"

definition example_plotter :: "(int, string) plotter" where
  "example_plotter =
     \<lparr>graphics = [(Name ''mixed'', [0, 1]), (Name ''roads'', [2, 3])],
      axes_lines = [2, 0, 3],
      axes_patches = [1],
      axes_reused = True,
      artists = example_artists,
      next_handle = 4,
      colors = [],
      current_color = - 1\<rparr>"

text \<open>
  The state that \<open>__init__\<close> leaves, on either library: an empty registry, nothing
  attached and the colour rotation set up by \<open>_init_colors\<close>. No artist has been
  created yet; the unused handles of the store hold a placeholder.
\<close>

definition new_plotter ::
  "bool \<Rightarrow> (string \<times> string) list list \<Rightarrow> (int, (string \<times> string) list) plotter" where
  "new_plotter reused prop_cycle =
     init_colors prop_cycle
       \<lparr>graphics = [],
        axes_lines = [],
        axes_patches = [],
        axes_reused = reused,
        artists = (\<lambda>h. \<lparr>artist_class = OtherArtist ''unused'' False, xdata = [], style = []\<rparr>),
        next_handle = 0,
        colors = [],
        current_color = 0\<rparr>"

text \<open>
  A palette of three colours, and two polygons plotted one after the other with no
  colour and no keyword arguments: under the same name \<open>a\<close>, and without a name.
\<close>

definition palette3 :: "(string \<times> string) list list" where
  "palette3 = [[(''color'', ''C0'')], [(''color'', ''C1'')], [(''color'', ''C2'')]]"

definition triangle :: "int point list list" where
  "triangle = [[(0, 0), (0, 4), (4, 0)]]"

definition square :: "int point list list" where
  "square = [[(0, 0), (0, 1), (1, 1), (1, 0)]]"

definition first_named_plot :: "bool \<Rightarrow> error option \<times> (int, (string \<times> string) list) plotter" where
  "first_named_plot reused = plot_polygon triangle [] (Name ''a'') [] (new_plotter reused palette3)"

definition second_named_plot :: "bool \<Rightarrow> error option \<times> (int, (string \<times> string) list) plotter" where
  "second_named_plot reused = plot_polygon square [] (Name ''a'') [] (snd (first_named_plot reused))"

definition first_unnamed_plot :: "bool \<Rightarrow> error option \<times> (int, (string \<times> string) list) plotter" where
  "first_unnamed_plot reused = plot_polygon triangle [] (Name []) [] (new_plotter reused palette3)"

definition second_unnamed_plot :: "bool \<Rightarrow> error option \<times> (int, (string \<times> string) list) plotter" where
  "second_unnamed_plot reused = plot_polygon square [] (Name []) [] (snd (first_unnamed_plot reused))"

text \<open>The colour that the entry at position \<open>k\<close> of the palette holds under the key \<open>color\<close>.\<close>

definition palette_color :: "(string \<times> string) list list \<Rightarrow> nat \<Rightarrow> string" where
  "palette_color palette k = (case map_of (palette ! k) ''color'' of Some c \<Rightarrow> c | None \<Rightarrow> [])"

section \<open>Properties\<close>

subsection \<open>The shoelace sum\<close>

lemma clockwise_loop_psum:
  "clockwise_loop t p ps = (t + psum (p # ps), last (p # ps))"
proof (induction ps arbitrary: t p)
  case Nil
  show ?case by (cases p) simp
next
  case (Cons q qs)
  show ?case by (cases p; cases q) (simp add: Cons.IH)
qed

lemma psum_snoc:
  "psum (xs @ [a, b]) = psum (xs @ [a]) + (fst b - fst a) * (snd b + snd a)"
  by (induction xs rule: psum.induct) simp_all

lemma psum_snoc1:
  "xs \<noteq> [] \<Longrightarrow> psum (xs @ [b]) = psum xs + (fst b - fst (last xs)) * (snd b + snd (last xs))"
  by (induction xs rule: psum.induct) simp_all

lemma psum_rev: "psum (rev xs) = - psum xs"
proof (induction xs rule: psum.induct)
  case (3 p q r)
  have "psum (rev (p # q # r)) = psum ((rev r @ [q]) @ [p])" by simp
  also have "\<dots> = psum (rev r @ [q]) + (fst p - fst q) * (snd p + snd q)"
    by (simp only: append_assoc append_Cons append_Nil psum_snoc)
  also have "\<dots> = - psum (q # r) + (fst p - fst q) * (snd p + snd q)"
    using 3 by simp
  finally show ?case by (simp add: algebra_simps)
qed simp_all

lemma shoelace_total_ring_sum:
  "data \<noteq> [] \<Longrightarrow> shoelace_total data = Inr (ring_sum data)"
proof (cases data)
  case (Cons p ps)
  obtain x0 y0 where p: "p = (x0, y0)" by (cases p)
  obtain x1 y1 where l: "last (p # ps) = (x1, y1)" by (cases "last (p # ps)")
  have "shoelace_total data = Inr (psum (p # ps) + (x0 - x1) * (y0 + y1))"
    using Cons p l by (simp add: shoelace_total_def clockwise_loop_psum)
  moreover have "ring_sum data = psum (p # ps) + (x0 - x1) * (y0 + y1)"
    using Cons p l psum_snoc1[of "p # ps" p] by (simp add: ring_sum_def)
  ultimately show ?thesis by simp
qed simp

lemma ring_sum_rev: "ring_sum (rev data) = - ring_sum data"
proof (cases data)
  case Nil
  then show ?thesis by (simp add: ring_sum_def)
next
  case (Cons p ps)
  have "- ring_sum data = psum (rev (data @ [hd data]))"
    by (simp only: psum_rev ring_sum_def)
  also have "\<dots> = psum (p # rev ps @ [p])" using Cons by simp
  finally have a: "- ring_sum data = psum (p # rev ps @ [p])" .
  show ?thesis
  proof (cases "ps = []")
    case True
    then show ?thesis using Cons by (simp add: ring_sum_def)
  next
    case False
    then obtain l ps' where ps: "rev ps = l # ps'" by (cases "rev ps") auto
    have "ring_sum (rev data) = psum ((l # ps') @ [p, l])"
      using Cons ps by (simp add: ring_sum_def)
    also have "\<dots> = psum ((l # ps') @ [p]) + (fst l - fst p) * (snd l + snd p)"
      by (rule psum_snoc)
    finally show ?thesis using a ps by simp
  qed
qed

lemma ring_sum_close: "data \<noteq> [] \<Longrightarrow> ring_sum (data @ [hd data]) = ring_sum data"
  by (simp add: ring_sum_def psum_snoc[of "data" "hd data" "hd data", simplified])


lemma order_vertices_Inr:
  assumes "data \<noteq> []"
  shows "order_vertices data w =
     Inr (let d1 = (if (0 < ring_sum data) \<noteq> w then data else rev data) in
          if hd d1 \<noteq> last d1 then d1 @ [hd d1] else d1)"
  using assms
  by (cases data; cases "rev data")
     (auto simp: order_vertices_def clockwise_def shoelace_total_ring_sum Let_def)

lemma order_vertices_Nil: "order_vertices [] w = Inl IndexError"
  by (simp add: order_vertices_def clockwise_def shoelace_total_def)

lemma order_vertices_nonempty: "order_vertices data w = Inr r \<Longrightarrow> r \<noteq> []"
proof (cases "data = []")
  case False
  assume "order_vertices data w = Inr r"
  with False show ?thesis
    by (auto simp: order_vertices_Inr Let_def split: if_splits)
qed (simp add: order_vertices_Nil)


lemma ring_sum_closing:
  "d \<noteq> [] \<Longrightarrow> ring_sum (if hd d \<noteq> last d then d @ [hd d] else d) = ring_sum d"
  by (simp add: ring_sum_close)

lemma order_vertices_ring_sum:
  assumes "order_vertices data w = Inr r"
  shows "ring_sum r = (if (0 < ring_sum data) = w then - ring_sum data else ring_sum data)"
proof (cases "data = []")
  case True
  then show ?thesis using assms by (simp add: order_vertices_Nil)
next
  case False
  show ?thesis
  proof (cases "(0 < ring_sum data) = w")
    case True
    then have "r = (if hd (rev data) \<noteq> last (rev data) then rev data @ [hd (rev data)] else rev data)"
      using assms False by (simp add: order_vertices_Inr Let_def)
    then have "ring_sum r = ring_sum (rev data)"
      using False ring_sum_closing[of "rev data"] by simp
    then show ?thesis using True by (simp add: ring_sum_rev)
  next
    case neq: False
    then have "r = (if hd data \<noteq> last data then data @ [hd data] else data)"
      using assms False by (simp add: order_vertices_Inr Let_def)
    then have "ring_sum r = ring_sum data"
      using False ring_sum_closing[of data] by simp
    then show ?thesis using neq by simp
  qed
qed

lemma order_sign_True:
  "order_vertices data True = Inr r \<Longrightarrow> ring_sum r \<le> 0"
  by (simp add: order_vertices_ring_sum split: if_splits)

lemma order_sign_False:
  "order_vertices data False = Inr r \<Longrightarrow> 0 \<le> ring_sum r"
  by (simp add: order_vertices_ring_sum split: if_splits)



subsection \<open>Path building\<close>

lemma codes_nonempty:
  "data \<noteq> [] \<Longrightarrow> codes data = Inr (MOVETO # replicate (length data - 1) LINETO)"
  by (cases data) (simp_all add: codes_def)

lemma codes_Nil: "codes [] = Inl IndexError"
  by (simp add: codes_def)

lemma comprehension_Inr:
  "list_all2 (\<lambda>d r. f d = Inr r) ds rs \<Longrightarrow> comprehension f ds = Inr rs"
  by (induction ds rs rule: list_all2_induct) simp_all

lemma comprehension_total:
  "\<forall>d\<in>set ds. \<exists>r. f d = Inr r \<Longrightarrow> \<exists>rs. list_all2 (\<lambda>d r. f d = Inr r) ds rs"
proof (induction ds)
  case (Cons d ds)
  then obtain r rs where "f d = Inr r" "list_all2 (\<lambda>d r. f d = Inr r) ds rs" by auto
  then have "list_all2 (\<lambda>d r. f d = Inr r) (d # ds) (r # rs)" by simp
  then show ?case by blast
next
  case Nil
  have "list_all2 (\<lambda>d r. f d = Inr r) [] []" by simp
  then show ?case by blast
qed

lemma comprehension_codes:
  "\<forall>r\<in>set rs. r \<noteq> [] \<Longrightarrow>
   comprehension codes rs = Inr (map (\<lambda>r. MOVETO # replicate (length r - 1) LINETO) rs)"
  by (induction rs) (simp_all add: codes_nonempty)

lemma length_concat_codes:
  "\<forall>r\<in>set rs. r \<noteq> [] \<Longrightarrow>
   length (concat (map (\<lambda>r. MOVETO # replicate (length r - 1) LINETO) rs)) = length (concat rs)"
  by (induction rs) auto

lemma polygon_path_Inr:
  assumes r0: "order_vertices d0 True = Inr ring0"
    and rs: "comprehension (\<lambda>d. order_vertices d False) ds = Inr rings"
    and c0: "codes ring0 = Inr k0"
    and cs: "comprehension codes rings = Inr ks"
  shows "polygon_path (d0 # ds) = Inr (concat (ring0 # rings), concat (k0 # ks))"
  unfolding polygon_path_def list.case r0 rs c0 cs sum.case Let_def ..

section \<open>The claims\<close>

subsection \<open>Ring orientation\<close>

text \<open>
  Claim C2. For a ring of at least three non-collinear points, \<open>normalize(R, true)\<close>
  is to return a ring whose shoelace sum, in the sign convention of \<open>_clockwise\<close>
  (positive means clockwise), is non-negative, and the point sequence is to be reversed
  exactly when the current orientation differs from the requested one. The code does
  the opposite: the triangle \<open>(0,0), (0,4), (4,0)\<close> has the sum \<open>16\<close>, so
  \<open>_clockwise\<close> calls it clockwise; asked for a clockwise ring, \<open>_order_vertices\<close>
  reverses it, and the ring it returns has the sum \<open>-16\<close> and is not clockwise
  for \<open>_clockwise\<close>.
\<close>

theorem order_vertices_reverses_requested_orientation:
  "clockwise ([(0,0),(0,4),(4,0)] :: int point list) = Inr True \<and>
   order_vertices ([(0,0),(0,4),(4,0)] :: int point list) True = Inr [(4,0),(0,4),(0,0),(4,0)] \<and>
   shoelace_total ([(4,0),(0,4),(0,0),(4,0)] :: int point list) = Inr (- 16) \<and>
   clockwise ([(4,0),(0,4),(0,0),(4,0)] :: int point list) = Inr False"
  by code_simp

text \<open>
  What the code does in general: the ring returned for the flag \<open>True\<close> never has a
  positive shoelace sum, the ring returned for \<open>False\<close> never a negative one.
\<close>

lemma order_vertices_True_sum:
  "order_vertices data True = Inr r \<Longrightarrow> shoelace_total r = Inr (ring_sum r) \<and> ring_sum r \<le> 0"
  using order_vertices_nonempty[of data True r] order_sign_True[of data r]
  by (simp add: shoelace_total_ring_sum)

lemma order_vertices_False_sum:
  "order_vertices data False = Inr r \<Longrightarrow> shoelace_total r = Inr (ring_sum r) \<and> 0 \<le> ring_sum r"
  using order_vertices_nonempty[of data False r] order_sign_False[of data r]
  by (simp add: shoelace_total_ring_sum)







text \<open>
  Claim C9. \<open>_order_vertices\<close> fails on a ring of fewer than one point: \<open>data[0]\<close>
  in \<open>_clockwise\<close> raises \<open>IndexError\<close>, the failure the specification names
  DegenerateRing. On every ring of at least one point it returns a ring.
\<close>

theorem order_vertices_failure:
  "order_vertices ([] :: 'a::linordered_idom point list) w = Inl IndexError \<and>
   (data \<noteq> [] \<longrightarrow> (\<exists>r. order_vertices (data :: 'a point list) w = Inr r))"
  by (simp add: order_vertices_Nil order_vertices_Inr)

theorem order_vertices_failure_witness:
  "order_vertices ([] :: int point list) True = Inl IndexError \<and>
   ([(3, 5)] :: int point list) \<noteq> [] \<and> order_vertices ([(3, 5)] :: int point list) True = Inr [(3, 5)]"
proof -
  have o: "order_vertices ([(3, 5)] :: int point list) True = Inr [(3, 5)]"
    by code_simp
  show ?thesis
    using order_vertices_failure[of True "([(3, 5)] :: int point list)"] o by simp
qed

subsection \<open>The path of a polygon\<close>

text \<open>
  Claim C3. For a polygon given as an outer ring and zero or more holes, all of at
  least one point, the vertex buffer is the ordered outer ring followed by the ordered
  holes in the order given, and the instruction buffer runs in parallel: every ring
  contributes one \<open>MOVETO\<close> followed by one \<open>LINETO\<close> for each of its remaining
  vertices.
\<close>

theorem polygon_path_rings:
  fixes outer :: "'a::linordered_idom point list"
  assumes "outer \<noteq> []" and "\<forall>h\<in>set holes. h \<noteq> []"
  shows "\<exists>ring0 rings.
           order_vertices outer True = Inr ring0 \<and>
           list_all2 (\<lambda>h r. order_vertices h False = Inr r) holes rings \<and>
           polygon_path (outer # holes) =
             Inr (concat (ring0 # rings),
                  concat (map (\<lambda>r. MOVETO # replicate (length r - 1) LINETO) (ring0 # rings))) \<and>
           length (concat (map (\<lambda>r. MOVETO # replicate (length r - 1) LINETO) (ring0 # rings)))
             = length (concat (ring0 # rings))"
proof -
  obtain ring0 where r0: "order_vertices outer True = Inr ring0"
    using assms(1) by (simp add: order_vertices_Inr)
  have "\<forall>h\<in>set holes. \<exists>r. order_vertices h False = Inr r"
    using assms(2) by (simp add: order_vertices_Inr)
  then have "\<exists>rings. list_all2 (\<lambda>h r. order_vertices h False = Inr r) holes rings"
    by (rule comprehension_total[of holes "\<lambda>h. order_vertices h False"])
  then obtain rings where rs: "list_all2 (\<lambda>h r. order_vertices h False = Inr r) holes rings" ..
  have inner: "comprehension (\<lambda>h. order_vertices h False) holes = Inr rings"
    using rs by (rule comprehension_Inr[of "\<lambda>h. order_vertices h False"])
  have ne0: "ring0 \<noteq> []" using r0 by (rule order_vertices_nonempty)
  have ne: "\<forall>r\<in>set rings. r \<noteq> []"
  proof
    fix r assume "r \<in> set rings"
    then obtain i where i: "i < length rings" "r = rings ! i"
      by (auto simp: in_set_conv_nth)
    have "length holes = length rings" using rs by (rule list_all2_lengthD)
    then have "order_vertices (holes ! i) False = Inr r"
      using rs i by (simp add: list_all2_conv_all_nth)
    then show "r \<noteq> []" by (rule order_vertices_nonempty)
  qed
  have ne': "\<forall>r\<in>set (ring0 # rings). r \<noteq> []" using ne0 ne by simp
  have c0: "codes ring0 = Inr (MOVETO # replicate (length ring0 - 1) LINETO)"
    using ne0 by (rule codes_nonempty)
  have cs: "comprehension codes rings = Inr (map (\<lambda>r. MOVETO # replicate (length r - 1) LINETO) rings)"
    using ne by (rule comprehension_codes)
  have p: "polygon_path (outer # holes) =
          Inr (concat (ring0 # rings),
               concat (map (\<lambda>r. MOVETO # replicate (length r - 1) LINETO) (ring0 # rings)))"
    using polygon_path_Inr[OF r0 inner c0 cs] by (simp only: list.map)
  have l: "length (concat (map (\<lambda>r. MOVETO # replicate (length r - 1) LINETO) (ring0 # rings)))
             = length (concat (ring0 # rings))"
    using ne' by (rule length_concat_codes)
  from r0 rs p l show ?thesis by (intro exI conjI)
qed

theorem polygon_path_rings_witness:
  "([(0,0),(0,4),(4,4),(4,0)] :: int point list) \<noteq> [] \<and>
   ([(1,1),(2,1),(2,2),(1,2)] :: int point list) \<noteq> [] \<and>
   polygon_path [([(0,0),(0,4),(4,4),(4,0)] :: int point list), [(1,1),(2,1),(2,2),(1,2)]] =
     Inr ([(4,0),(4,4),(0,4),(0,0),(4,0), (1,2),(2,2),(2,1),(1,1),(1,2)],
          [MOVETO, LINETO, LINETO, LINETO, LINETO, MOVETO, LINETO, LINETO, LINETO, LINETO])"
proof -
  have h1: "([(0,0),(0,4),(4,4),(4,0)] :: int point list) \<noteq> []" by simp
  have h2: "\<forall>h\<in>set [([(1,1),(2,1),(2,2),(1,2)] :: int point list)]. h \<noteq> []" by simp
  have c: "polygon_path [([(0,0),(0,4),(4,4),(4,0)] :: int point list), [(1,1),(2,1),(2,2),(1,2)]] =
     Inr ([(4,0),(4,4),(0,4),(0,0),(4,0), (1,2),(2,2),(2,1),(1,1),(1,2)],
          [MOVETO, LINETO, LINETO, LINETO, LINETO, MOVETO, LINETO, LINETO, LINETO, LINETO])"
    by code_simp
  show ?thesis
    using polygon_path_rings[OF h1 h2] h1 c by simp
qed

subsection \<open>The layer registry\<close>

lemma remove_each_mset:
  "mset gs \<subseteq># mset c \<Longrightarrow> \<exists>c'. remove_each gs c = (None, c') \<and> mset c' + mset gs = mset c"
proof (induction gs arbitrary: c)
  case Nil
  then show ?case by simp
next
  case (Cons g gs)
  from Cons.prems have g: "g \<in> set c"
    by (metis list.set_intros(1) mset_subset_eqD set_mset_mset)
  from Cons.prems have "mset gs \<subseteq># mset (remove1 g c)"
    by (simp add: insert_subset_eq_iff)
  from Cons.IH[OF this] obtain c' where
    c': "remove_each gs (remove1 g c) = (None, c')" "mset c' + mset gs = mset (remove1 g c)"
    by blast
  have "mset c' + mset (g # gs) = mset c"
    using c'(2) g by simp
  then show ?case using c'(1) g by simp
qed

lemma add_each_append: "add_each gs c = c @ gs"
  unfolding add_each_def by (induction gs arbitrary: c) simp_all

lemma absent_noop:
  assumes "map_of (graphics s) name = None"
  shows "hide name s = (None, s)" "show_layer name s = (None, s)" "remove_layer name s = (None, s)"
proof -
  show h: "hide name s = (None, s)"
    using assms by (simp add: hide_def hide_body_def)
  show "show_layer name s = (None, s)"
    using assms by (simp add: show_layer_def show_body_def)
  show "remove_layer name s = (None, s)"
    using assms h by (simp add: remove_layer_def remove_body_def)
qed

lemma remove_each_error:
  "remove_each gs c = (Some e, c') \<Longrightarrow> e = ValueError"
  by (induction gs arbitrary: c) (auto split: if_splits)

lemma detach_each_reused: "detach_each True gs c = remove_each gs c"
  by (simp add: detach_each_def)

lemma detach_each_new_axes: "detach_each False (g0 # rest) c = (Some ValueError, c)"
  by (simp add: detach_each_def)

lemma detach_each_error:
  "detach_each reused gs c = (Some e, c') \<Longrightarrow> e = ValueError"
proof (cases reused)
  case True
  assume "detach_each reused gs c = (Some e, c')"
  then have "remove_each gs c = (Some e, c')" using True by (simp add: detach_each_def)
  then show ?thesis by (rule remove_each_error)
next
  case False
  assume "detach_each reused gs c = (Some e, c')"
  then show ?thesis using False by (cases gs) (simp_all add: detach_each_def)
qed

lemma hide_preserves:
  assumes "hide name s = (e, s')"
  shows "artists s' = artists s" "graphics s' = graphics s" "colors s' = colors s"
    "current_color s' = current_color s" "next_handle s' = next_handle s"
    "axes_reused s' = axes_reused s"
  using assms
  by (auto simp: hide_def hide_body_def
      split: option.splits list.splits artist_class.splits prod.splits if_splits)

lemma hide_returns:
  assumes "map_of (graphics s) name = Some (g0 # rest)"
    and "artist_class (artists s g0) = Line2D \<or> artist_class (artists s g0) = Polygon
           \<or> artist_class (artists s g0) = PathPatch"
  shows "fst (hide name s) = None"
  using assms
  by (auto simp: hide_def hide_body_def dest: detach_each_error split: prod.splits option.splits)

lemma hide_lines:
  assumes "map_of (graphics s) name = Some (g0 # rest)"
    and "artist_class (artists s g0) = Line2D"
    and "remove_each (g0 # rest) (axes_lines s) = (e, c)"
    and "axes_reused s"
  shows "hide name s = (None, s\<lparr>axes_lines := c\<rparr>)"
  using assms remove_each_error[of "g0 # rest" _ _ c]
  by (cases e) (auto simp: hide_def hide_body_def detach_each_def simp del: remove_each.simps)

lemma hide_patches:
  assumes "map_of (graphics s) name = Some (g0 # rest)"
    and "artist_class (artists s g0) = Polygon \<or> artist_class (artists s g0) = PathPatch"
    and "remove_each (g0 # rest) (axes_patches s) = (e, c)"
    and "axes_reused s"
  shows "hide name s = (None, s\<lparr>axes_patches := c\<rparr>)"
  using assms remove_each_error[of "g0 # rest" _ _ c]
  by (cases e) (auto simp: hide_def hide_body_def detach_each_def simp del: remove_each.simps)

lemma show_lines:
  assumes "map_of (graphics s) name = Some (g0 # rest)"
    and "artist_class (artists s g0) = Line2D"
    and "axes_reused s"
  shows "show_layer name s = (None, s\<lparr>axes_lines := axes_lines s @ g0 # rest\<rparr>)"
  using assms by (simp add: show_layer_def show_body_def attach_each_def add_each_append)

lemma show_patches:
  assumes "map_of (graphics s) name = Some (g0 # rest)"
    and "artist_class (artists s g0) = Polygon \<or> artist_class (artists s g0) = PathPatch"
    and "axes_reused s"
  shows "show_layer name s = (None, s\<lparr>axes_patches := axes_patches s @ g0 # rest\<rparr>)"
  using assms by (auto simp: show_layer_def show_body_def attach_each_def add_each_append)

text \<open>
  Where \<open>plt.axes()\<close> returns the axes that holds the artists, \<open>hide\<close> followed by
  \<open>show\<close> does restore a layer whose list is not empty and lies, with its
  multiplicities, on the list of the axes that the class of its first primitive
  selects: each listed primitive is detached once and attached once again, and the
  axes hold the same primitives with the same multiplicities as before.
\<close>

lemma hide_show_same_list:
  assumes "map_of (graphics s) name = Some gs" and "gs \<noteq> []" and "axes_reused s"
    and "(artist_class (artists s (hd gs)) = Line2D \<and> mset gs \<subseteq># mset (axes_lines s)) \<or>
         ((artist_class (artists s (hd gs)) = Polygon \<or> artist_class (artists s (hd gs)) = PathPatch)
            \<and> mset gs \<subseteq># mset (axes_patches s))"
  shows "\<exists>s1 s2. hide name s = (None, s1) \<and> show_layer name s1 = (None, s2) \<and>
           mset (axes_lines s1) + mset (axes_patches s1) + mset gs
             = mset (axes_lines s) + mset (axes_patches s) \<and>
           mset (axes_lines s2) = mset (axes_lines s) \<and>
           mset (axes_patches s2) = mset (axes_patches s) \<and>
           graphics s2 = graphics s \<and> artists s2 = artists s"
proof -
  obtain g0 rest where gs: "gs = g0 # rest" using assms(2) by (cases gs) auto
  from assms(4) show ?thesis
  proof
    assume a: "artist_class (artists s (hd gs)) = Line2D \<and> mset gs \<subseteq># mset (axes_lines s)"
    then obtain c where c: "remove_each gs (axes_lines s) = (None, c)" "mset c + mset gs = mset (axes_lines s)"
      using remove_each_mset by blast
    let ?s1 = "s\<lparr>axes_lines := c\<rparr>"
    let ?s2 = "?s1\<lparr>axes_lines := axes_lines ?s1 @ g0 # rest\<rparr>"
    have h: "hide name s = (None, ?s1)"
      using assms(1,3) a c(1) gs hide_lines[of s name g0 rest None c] by simp
    have sh: "show_layer name ?s1 = (None, ?s2)"
      using assms(1,3) a gs show_lines[of ?s1 name g0 rest] by simp
    have "mset (axes_lines ?s1) + mset (axes_patches ?s1) + mset gs
             = mset (axes_lines s) + mset (axes_patches s)"
      using c(2) by (simp add: ac_simps)
    moreover have "mset (axes_lines ?s2) = mset (axes_lines s)"
      using c(2) gs by simp
    moreover have "mset (axes_patches ?s2) = mset (axes_patches s)" by simp
    moreover have "graphics ?s2 = graphics s" "artists ?s2 = artists s" by simp_all
    ultimately show ?thesis using h sh by blast
  next
    assume a: "(artist_class (artists s (hd gs)) = Polygon \<or> artist_class (artists s (hd gs)) = PathPatch)
            \<and> mset gs \<subseteq># mset (axes_patches s)"
    then obtain c where c: "remove_each gs (axes_patches s) = (None, c)" "mset c + mset gs = mset (axes_patches s)"
      using remove_each_mset by blast
    let ?s1 = "s\<lparr>axes_patches := c\<rparr>"
    let ?s2 = "?s1\<lparr>axes_patches := axes_patches ?s1 @ g0 # rest\<rparr>"
    have h: "hide name s = (None, ?s1)"
      using assms(1,3) a c(1) gs hide_patches[of s name g0 rest None c] by simp
    have sh: "show_layer name ?s1 = (None, ?s2)"
      using assms(1,3) a gs show_patches[of ?s1 name g0 rest] by simp
    have "mset (axes_lines ?s1) + mset (axes_patches ?s1) + mset gs
             = mset (axes_lines s) + mset (axes_patches s)"
      using c(2) by (simp add: ac_simps)
    moreover have "mset (axes_patches ?s2) = mset (axes_patches s)"
      using c(2) gs by simp
    moreover have "mset (axes_lines ?s2) = mset (axes_lines s)" by simp
    moreover have "graphics ?s2 = graphics s" "artists ?s2 = artists s" by simp_all
    ultimately show ?thesis using h sh by blast
  qed
qed

text \<open>
  Where every \<open>plt.axes()\<close> is a new axes, \<open>hide\<close> detaches nothing from a layer that
  has a primitive, and \<open>show\<close> raises \<open>ValueError\<close>.
\<close>

lemma hide_show_new_axes:
  assumes "map_of (graphics s) name = Some (g0 # rest)" and "\<not> axes_reused s"
    and "artist_class (artists s g0) = Line2D \<or> artist_class (artists s g0) = Polygon
           \<or> artist_class (artists s g0) = PathPatch"
  shows "hide name s = (None, s)" and "show_layer name s = (Some ValueError, s)"
  using assms
  by (auto simp: hide_def hide_body_def show_layer_def show_body_def
      detach_each_def attach_each_def)

text \<open>A layer with an empty list can be neither hidden, shown nor removed.\<close>

lemma empty_layer_raises:
  assumes "map_of (graphics s) name = Some []"
  shows "hide name s = (Some IndexError, s)" and "show_layer name s = (Some IndexError, s)"
    and "remove_layer name s = (Some IndexError, s)"
  using assms
  by (simp_all add: hide_def hide_body_def show_layer_def show_body_def
      remove_layer_def remove_body_def)

text \<open>
  Claim C4. For a layer in the registry whose primitives are attached, \<open>hide\<close> followed
  by \<open>show\<close> is to restore the same primitives, each detached once and attached once
  again. The layer \<open>mixed\<close> is what plotting a geometry collection of a point and a
  polygon stores: the line \<open>0\<close> and the patch \<open>1\<close>, both attached. \<open>hide\<close> and \<open>show\<close>
  choose the list of the axes by the class of the first artist alone. Here
  \<open>plt.axes()\<close> is the axes that holds the artists: \<open>hide\<close> removes the line from the
  lines, does not find the patch there and stops at the \<open>ValueError\<close>, so the patch is
  still attached and the layer is not hidden; \<open>show\<close> then adds both artists to the
  lines, and the patch is on the axes twice. Where every \<open>plt.axes()\<close> is a new
  axes, \<open>hide\<close> detaches nothing at all and \<open>show\<close> raises \<open>ValueError\<close>.
\<close>

theorem hide_show_mixed_layer:
  "map_of (graphics example_plotter) (Name ''mixed'') = Some [0, 1] \<and>
   attached example_plotter 0 \<and> attached example_plotter 1 \<and>
   axes_reused example_plotter \<and>
   axes_lines example_plotter = [2, 0, 3] \<and> axes_patches example_plotter = [1] \<and>
   hide (Name ''mixed'') example_plotter = (None, example_plotter\<lparr>axes_lines := [2, 3]\<rparr>) \<and>
   attached (example_plotter\<lparr>axes_lines := [2, 3]\<rparr>) 1 \<and>
   show_layer (Name ''mixed'') (example_plotter\<lparr>axes_lines := [2, 3]\<rparr>)
     = (None, example_plotter\<lparr>axes_lines := [2, 3, 0, 1]\<rparr>) \<and>
   canvas_count (example_plotter\<lparr>axes_lines := [2, 3, 0, 1]\<rparr>) 1 = 2 \<and>
   canvas_count example_plotter 1 = 1 \<and>
   hide (Name ''mixed'') (example_plotter\<lparr>axes_reused := False\<rparr>)
     = (None, example_plotter\<lparr>axes_reused := False\<rparr>) \<and>
   show_layer (Name ''mixed'') (example_plotter\<lparr>axes_reused := False\<rparr>)
     = (Some ValueError, example_plotter\<lparr>axes_reused := False\<rparr>)"
  by (simp add: hide_def hide_body_def show_layer_def show_body_def add_each_def attached_def
      detach_each_def attach_each_def canvas_count_def example_plotter_def example_artists_def)

text \<open>
  Claim C8. For a name that is not in the registry, \<open>hide\<close>, \<open>show\<close> and \<open>remove\<close> each
  return normally and leave the whole state, registry and axes, unchanged.
\<close>

theorem absent_layer_noop:
  "map_of (graphics s) name = None \<Longrightarrow>
   hide name s = (None, s) \<and> show_layer name s = (None, s) \<and> remove_layer name s = (None, s)"
  by (simp add: absent_noop)

theorem absent_layer_noop_witness:
  "map_of (graphics example_plotter) (Name ''rivers'') = None \<and>
   hide (Name ''rivers'') example_plotter = (None, example_plotter) \<and>
   show_layer (Name ''rivers'') example_plotter = (None, example_plotter) \<and>
   remove_layer (Name ''rivers'') example_plotter = (None, example_plotter)"
proof -
  have h: "map_of (graphics example_plotter) (Name ''rivers'') = None"
    by (simp add: example_plotter_def)
  show ?thesis using absent_layer_noop[OF h] h by simp
qed







subsection \<open>Style continuity\<close>

lemma same_type_line_polygon:
  assumes "artist_class a = Line2D \<or> artist_class a = Polygon"
  shows "same_type a b =
           Inr (artist_class a = artist_class b \<and>
                (artist_class a = Line2D \<longrightarrow>
                   length (xdata a) = length (xdata b) \<or>
                   (1 < length (xdata a) \<and> 1 < length (xdata b))))"
  using assms by (auto simp: same_type_def get_xdata_def)

lemma same_type_patch_raises:
  "artist_class a = PathPatch \<Longrightarrow> artist_class b = PathPatch \<Longrightarrow> same_type a b = Inl AttributeError"
  by (simp add: same_type_def get_xdata_def)

text \<open>
  Claim C5. Two primitives of the same class that are not stroked lines are to be
  compatible. For two \<open>PathPatch\<close> artists, the only patches this plotter creates,
  \<open>_same_type\<close> does not answer: it passes the test for \<open>Polygon\<close> and calls
  \<open>get_xdata\<close>, which a patch does not have, so \<open>AttributeError\<close> is raised. \<open>hide\<close> and
  \<open>show\<close> treat \<open>Polygon\<close> and \<open>PathPatch\<close> alike. For lines and for \<open>Polygon\<close> the
  test is as the claim says (lemma \<open>same_type_line_polygon\<close>).
\<close>

theorem same_type_pathpatch_attribute_error:
  "same_type \<lparr>artist_class = PathPatch, xdata = ([] :: int list), style = ''fc=C0''\<rparr>
             \<lparr>artist_class = PathPatch, xdata = [], style = ''fc=C1''\<rparr> = Inl AttributeError"
  by (simp add: same_type_def get_xdata_def)

lemma update_from_styled:
  "style (artists (update_from g a s) a) = style (artists s a)"
  by (simp add: update_from_def)

lemma update_each_artists:
  "artists (update_each gs a s) h =
     (if h \<in> set gs then (artists s h)\<lparr>style := style (artists s a)\<rparr> else artists s h)"
proof (induction gs arbitrary: s)
  case Nil
  show ?case by simp
next
  case (Cons g gs)
  show ?case
    by (simp add: Cons.IH update_from_styled) (simp add: update_from_def)
qed

lemma update_each_fields:
  "graphics (update_each gs a s) = graphics s"
  "axes_lines (update_each gs a s) = axes_lines s"
  "axes_patches (update_each gs a s) = axes_patches s"
  by (induction gs arbitrary: s) (simp_all add: update_from_def)

lemma store_graphics_lookup:
  "map_of (graphics (store_graphics name gs s)) name = Some gs"
  "artists (store_graphics name gs s) = artists s"
  by (simp_all add: store_graphics_def update_conv')

lemma hide_line_layer:
  assumes "map_of (graphics s) name = Some (a0 # as)"
    and "artist_class (artists s a0) = Line2D \<or> artist_class (artists s a0) = Polygon"
  shows "\<exists>s1. hide name s = (None, s1) \<and> graphics s1 = graphics s \<and> artists s1 = artists s"
proof -
  obtain e s1 where h: "hide name s = (e, s1)" by fastforce
  have "fst (hide name s) = None"
    using assms by (intro hide_returns[of s name a0 as]) auto
  then have "e = None" using h by simp
  then show ?thesis using h hide_preserves(1,2)[OF h] by simp
qed

lemma set_graphics_restyles:
  assumes "truthy name"
    and "map_of (graphics s) name = Some (a0 # as)"
    and "artist_class (artists s a0) = Line2D \<or> artist_class (artists s a0) = Polygon"
    and "same_type (artists s g0) (artists s a0) = Inr True"
  shows "\<exists>s'. set_graphics (g0 # rest) name False s = (None, s') \<and>
              map_of (graphics s') name = Some (g0 # rest) \<and>
              (\<forall>g\<in>set (g0 # rest). style (artists s' g) = style (artists s a0))"
proof -
  obtain s1 where s1: "hide name s = (None, s1)" "graphics s1 = graphics s" "artists s1 = artists s"
    using hide_line_layer[OF assms(2,3)] by blast
  let ?s' = "store_graphics name (g0 # rest) (update_each (g0 # rest) a0 s1)"
  have "set_graphics (g0 # rest) name False s = (None, ?s')"
    using assms(1,2,4) s1 by (simp add: set_graphics_def)
  moreover have "map_of (graphics ?s') name = Some (g0 # rest)"
    by (rule store_graphics_lookup)
  moreover have "\<forall>g\<in>set (g0 # rest). style (artists ?s' g) = style (artists s a0)"
    using s1(3) by (simp add: store_graphics_lookup update_each_artists del: update_each.simps)
  ultimately show ?thesis by blast
qed

lemma set_graphics_new_name:
  assumes "truthy name" and "map_of (graphics s) name = None"
  shows "set_graphics gs name has_symbol s = (None, store_graphics name gs s)"
  using assms by (simp add: set_graphics_def)

lemma style_continuity_lines:
  assumes "truthy name" and "map_of (graphics s) name = None"
    and "artist_class (artists s a0) = Line2D \<or> artist_class (artists s a0) = Polygon"
    and "same_type (artists s b0) (artists s a0) = Inr True"
  shows "\<exists>s1 s2. set_graphics (a0 # as) name False s = (None, s1) \<and>
                 set_graphics (b0 # bs) name False s1 = (None, s2) \<and>
                 map_of (graphics s2) name = Some (b0 # bs) \<and>
                 (\<forall>b\<in>set (b0 # bs). style (artists s2 b) = style (artists s a0))"
proof -
  let ?s1 = "store_graphics name (a0 # as) s"
  have 1: "set_graphics (a0 # as) name False s = (None, ?s1)"
    using assms(1,2) by (rule set_graphics_new_name)
  have l: "map_of (graphics ?s1) name = Some (a0 # as)" by (rule store_graphics_lookup)
  have a: "artists ?s1 = artists s" by (rule store_graphics_lookup)
  obtain s2 where "set_graphics (b0 # bs) name False ?s1 = (None, s2)"
      "map_of (graphics s2) name = Some (b0 # bs)"
      "\<forall>g\<in>set (b0 # bs). style (artists s2 g) = style (artists ?s1 a0)"
    using set_graphics_restyles[OF assms(1) l, of b0 bs] assms(3,4) a by auto
  then show ?thesis using 1 a by auto
qed

lemma second_polygon_plot_reused:
  "fst (first_named_plot True) = None \<and>
   map_of (graphics (snd (first_named_plot True))) (Name ''a'') = Some [0] \<and>
   style (artists (snd (first_named_plot True)) 0) = [(''fc'', ''C0'')] \<and>
   fst (second_named_plot True) = Some AttributeError \<and>
   map_of (graphics (snd (second_named_plot True))) (Name ''a'') = Some [0] \<and>
   artist_class (artists (snd (second_named_plot True)) 1) = PathPatch \<and>
   style (artists (snd (second_named_plot True)) 1) = [(''fc'', ''C1'')]"
  by code_simp

lemma second_polygon_plot_new_axes:
  "fst (first_named_plot False) = None \<and>
   map_of (graphics (snd (first_named_plot False))) (Name ''a'') = Some [0] \<and>
   style (artists (snd (first_named_plot False)) 0) = [(''fc'', ''C0'')] \<and>
   fst (second_named_plot False) = Some AttributeError \<and>
   map_of (graphics (snd (second_named_plot False))) (Name ''a'') = Some [0] \<and>
   artist_class (artists (snd (second_named_plot False)) 1) = PathPatch \<and>
   style (artists (snd (second_named_plot False)) 1) = [(''fc'', ''C1'')]"
  by code_simp

text \<open>
  Claim C1. A layer set twice without a style of its own is to keep the style of its
  first occupant. For polygons it does not, whatever \<open>plt.axes()\<close> returns:
  \<open>plot_polygon\<close> of a triangle under the name \<open>a\<close> on a new plotter stores the patch
  \<open>0\<close> with the fill \<open>C0\<close>; plotting a square under the same name raises
  \<open>AttributeError\<close> in \<open>_same_type\<close>: the new patch \<open>1\<close> keeps its own fill \<open>C1\<close> and is
  not in the registry, which still holds the patch \<open>0\<close>. For layers of lines the
  style is carried over (lemma \<open>style_continuity_lines\<close>).
\<close>

theorem second_polygon_plot_raises:
  "fst (first_named_plot reused) = None \<and>
   map_of (graphics (snd (first_named_plot reused))) (Name ''a'') = Some [0] \<and>
   style (artists (snd (first_named_plot reused)) 0) = [(''fc'', ''C0'')] \<and>
   fst (second_named_plot reused) = Some AttributeError \<and>
   map_of (graphics (snd (second_named_plot reused))) (Name ''a'') = Some [0] \<and>
   artist_class (artists (snd (second_named_plot reused)) 1) = PathPatch \<and>
   style (artists (snd (second_named_plot reused)) 1) = [(''fc'', ''C1'')]"
proof (cases reused)
  case True
  then show ?thesis using second_polygon_plot_reused by simp
next
  case False
  then show ?thesis using second_polygon_plot_new_axes by simp
qed

subsection \<open>The colour rotation\<close>

lemma next_color_new_step:
  assumes ne: "colors s \<noteq> []"
    and ok: "\<forall>entry\<in>set (colors s). map_of entry ''color'' \<noteq> None"
    and lo: "- 1 \<le> current_color s" and hi: "current_color s < int (length (colors s))"
  shows "next_color_new s =
           (Inr (palette_color (colors s) (nat (current_color s + 1) mod length (colors s))),
            s\<lparr>current_color := int (nat (current_color s + 1) mod length (colors s))\<rparr>)"
proof -
  let ?n = "length (colors s)"
  let ?k = "nat (current_color s + 1) mod ?n"
  have n: "0 < ?n" using ne by simp
  have k: "?k < ?n" using n by simp
  have c': "(if current_color s + 1 \<ge> int ?n then 0 else current_color s + 1) = int ?k"
  proof (cases "current_color s + 1 \<ge> int ?n")
    case True
    then have "nat (current_color s + 1) = ?n" using hi by linarith
    then show ?thesis using True by simp
  next
    case False
    then have "nat (current_color s + 1) < ?n" using lo by linarith
    then show ?thesis using False lo by simp
  qed
  have "colors s ! ?k \<in> set (colors s)" using k by simp
  then obtain col where col: "map_of (colors s ! ?k) ''color'' = Some col"
    using ok by blast
  have idx: "py_index (colors s) (int ?k) = Inr (colors s ! ?k)"
    using k by (simp add: py_index_def)
  show ?thesis
    unfolding next_color_new_def Let_def c'
    using idx col by (simp add: palette_color_def)
qed

lemma color_run_from:
  assumes "colors s \<noteq> []"
    and "\<forall>entry\<in>set (colors s). map_of entry ''color'' \<noteq> None"
    and "- 1 \<le> current_color s" and "current_color s < int (length (colors s))"
  shows "color_run n s =
           map (\<lambda>k. Inr (palette_color (colors s) ((nat (current_color s + 1) + k) mod length (colors s))))
               [0..<n]"
  using assms
proof (induction n arbitrary: s)
  case 0
  show ?case by simp
next
  case (Suc n)
  let ?len = "length (colors s)"
  let ?k = "nat (current_color s + 1) mod ?len"
  let ?s' = "s\<lparr>current_color := int ?k\<rparr>"
  have len: "0 < ?len" using Suc.prems(1) by simp
  have step: "next_color_new s = (Inr (palette_color (colors s) ?k), ?s')"
    using Suc.prems by (rule next_color_new_step)
  have "color_run n ?s' =
          map (\<lambda>k. Inr (palette_color (colors ?s') ((nat (current_color ?s' + 1) + k) mod length (colors ?s'))))
              [0..<n]"
    using Suc.prems len by (intro Suc.IH) simp_all
  then have ih: "color_run n ?s' =
          map (\<lambda>k. Inr (palette_color (colors s) ((Suc ?k + k) mod ?len))) [0..<n]"
    by (simp add: nat_add_distrib)
  have shift: "Suc (?k + k) mod ?len = Suc (nat (current_color s + 1) + k) mod ?len" for k
  proof -
    have "(?k + Suc k) mod ?len = (nat (current_color s + 1) + Suc k) mod ?len"
      by (rule mod_add_left_eq)
    then show ?thesis by simp
  qed
  have "color_run (Suc n) s = Inr (palette_color (colors s) ?k) # color_run n ?s'"
    using step by simp
  also have "\<dots> = map (\<lambda>k. Inr (palette_color (colors s) ((nat (current_color s + 1) + k) mod ?len)))
                       (0 # map Suc [0..<n])"
    by (simp add: ih shift comp_def)
  also have "0 # map Suc [0..<n] = [0..<Suc n]"
    by (simp add: upt_conv_Cons map_Suc_upt del: upt_Suc)
  finally show ?case .
qed

lemma same_type_patch_first:
  "artist_class a = PathPatch \<Longrightarrow> same_type a b \<noteq> Inr True"
  by (simp add: same_type_def get_xdata_def)

lemma set_graphics_patch:
  assumes p: "artist_class (artists s g) = PathPatch"
    and r: "set_graphics [g] name has_symbol s = (e, s')"
  shows "artists s' g = artists s g \<and> colors s' = colors s \<and> current_color s' = current_color s"
proof -
  define key where "key = (if truthy name then name else Ordinal (length (graphics s)))"
  show ?thesis
  proof (cases "map_of (graphics s) key")
    case None
    then have "s' = store_graphics key [g] s"
      using r by (simp add: set_graphics_def key_def)
    then show ?thesis by (simp add: store_graphics_def)
  next
    case (Some old)
    obtain e1 s1 where h: "hide key s = (e1, s1)" by fastforce
    note hp = hide_preserves[OF h]
    have p1: "artist_class (artists s1 g) = PathPatch" using p hp(1) by simp
    have "s' = s1 \<or> s' = store_graphics key [g] s1"
    proof (cases e1)
      case (Some a)
      then show ?thesis using r h \<open>map_of (graphics s) key = Some old\<close>
        by (simp add: set_graphics_def key_def[symmetric])
    next
      case None
      show ?thesis
      proof (cases "map_of (graphics s1) key")
        case n: None
        then show ?thesis using r h None \<open>map_of (graphics s) key = Some old\<close>
          by (simp add: set_graphics_def key_def[symmetric] split: if_splits)
      next
        case (Some old1)
        then show ?thesis using r h None \<open>map_of (graphics s) key = Some old\<close>
            same_type_patch_first[OF p1]
          by (auto simp: set_graphics_def key_def[symmetric]
              split: if_splits list.splits sum.splits bool.splits)
      qed
    qed
    then show ?thesis using hp by (auto simp: store_graphics_def)
  qed
qed

lemma plot_polygon_default_fill:
  assumes ne: "colors s \<noteq> []"
    and ok: "\<forall>entry\<in>set (colors s). map_of entry ''color'' \<noteq> None"
    and lo: "- 1 \<le> current_color s" and hi: "current_color s < int (length (colors s))"
    and path: "polygon_path data = Inr p"
    and r: "plot_polygon data [] name [] s = (e, s')"
  shows "style (artists s' (next_handle s)) =
           [(''fc'', palette_color (colors s) (nat (current_color s + 1) mod length (colors s)))]"
    and "artist_class (artists s' (next_handle s)) = PathPatch"
    and "colors s' = colors s"
    and "current_color s' = int (nat (current_color s + 1) mod length (colors s))"
proof -
  let ?k = "nat (current_color s + 1) mod length (colors s)"
  let ?kw = "[(''fc'', palette_color (colors s) ?k)]"
  let ?s1 = "s\<lparr>current_color := int ?k\<rparr>"
  let ?s2 = "?s1\<lparr>artists := (artists ?s1)
                              (next_handle ?s1 := \<lparr>artist_class = PathPatch, xdata = [], style = ?kw\<rparr>),
                 next_handle := next_handle ?s1 + 1,
                 axes_patches := axes_patches ?s1 @ [next_handle ?s1]\<rparr>"
  have step: "next_color_new s = (Inr (palette_color (colors s) ?k), ?s1)"
    using ne ok lo hi by (rule next_color_new_step)
  have "plot_polygon data [] name [] s = set_graphics [next_handle ?s1] name False ?s2"
    by (simp add: plot_polygon_def step path Let_def)
  then have sg: "set_graphics [next_handle s] name False ?s2 = (e, s')"
    using r by simp
  have "artist_class (artists ?s2 (next_handle s)) = PathPatch" by simp
  from set_graphics_patch[OF this sg]
  have "artists s' (next_handle s) = artists ?s2 (next_handle s)"
    "colors s' = colors ?s2" "current_color s' = current_color ?s2" by simp_all
  then show "style (artists s' (next_handle s)) = ?kw"
    and "artist_class (artists s' (next_handle s)) = PathPatch"
    and "colors s' = colors s"
    and "current_color s' = int ?k"
    by simp_all
qed

text \<open>
  Claim C7. On a plotter whose palette is not empty, holds a colour in every entry and
  whose cursor is where \<open>_init_colors\<close> puts it, the \<open>k\<close>-th call of \<open>_next_color\<close>
  (counting from \<open>0\<close>) returns the colour of the palette entry \<open>k mod\<close> the length of the
  palette: the entries in order from the first, and from the first again after the
  last. In particular the first polygon plotted with no colour and no keyword
  arguments is created with the first palette colour as its \<open>fc\<close>, and the polygon
  plotted next in the same way with the second (the first again when the palette has
  one entry).
\<close>

theorem default_color_rotation:
  assumes "colors s \<noteq> []"
    and "\<forall>entry\<in>set (colors s). map_of entry ''color'' \<noteq> None"
    and "current_color s = - 1"
  shows "color_run n s =
           map (\<lambda>k. Inr (palette_color (colors s) (k mod length (colors s)))) [0..<n] \<and>
         (polygon_path data1 = Inr p1 \<and> polygon_path data2 = Inr p2 \<longrightarrow>
            (let s1 = snd (plot_polygon data1 [] name1 [] s);
                 s2 = snd (plot_polygon data2 [] name2 [] s1)
             in style (artists s1 (next_handle s)) = [(''fc'', palette_color (colors s) 0)] \<and>
                style (artists s2 (next_handle s1)) =
                  [(''fc'', palette_color (colors s) (1 mod length (colors s)))]))"
proof -
  have lo: "- 1 \<le> current_color s" and hi: "current_color s < int (length (colors s))"
    using assms(3) by simp_all
  have run: "color_run n s =
           map (\<lambda>k. Inr (palette_color (colors s) (k mod length (colors s)))) [0..<n]"
    using color_run_from[OF assms(1,2) lo hi, of n] assms(3) by simp
  have fill: "style (artists s1 (next_handle s)) = [(''fc'', palette_color (colors s) 0)] \<and>
        style (artists s2 (next_handle s1)) =
          [(''fc'', palette_color (colors s) (1 mod length (colors s)))]"
    if d1: "polygon_path data1 = Inr p1" and d2: "polygon_path data2 = Inr p2"
      and s1: "s1 = snd (plot_polygon data1 [] name1 [] s)"
      and s2: "s2 = snd (plot_polygon data2 [] name2 [] s1)" for s1 s2
  proof -
    obtain e1 where r1: "plot_polygon data1 [] name1 [] s = (e1, s1)"
      using s1 by (metis prod.collapse)
    obtain e2 where r2: "plot_polygon data2 [] name2 [] s1 = (e2, s2)"
      using s2 by (metis prod.collapse)
    note f1 = plot_polygon_default_fill[OF assms(1,2) lo hi d1 r1]
    have c1: "colors s1 = colors s" and k1: "current_color s1 = 0"
      using f1(3,4) assms(3) by simp_all
    have ne1: "colors s1 \<noteq> []"
      and ok1: "\<forall>entry\<in>set (colors s1). map_of entry ''color'' \<noteq> None"
      using assms(1,2) c1 by simp_all
    have lo1: "- 1 \<le> current_color s1" and hi1: "current_color s1 < int (length (colors s1))"
      using k1 ne1 by simp_all
    note f2 = plot_polygon_default_fill[OF ne1 ok1 lo1 hi1 d2 r2]
    show ?thesis using f1(1) f2(1) assms(3) c1 k1 by simp
  qed
  show ?thesis using run fill by (simp add: Let_def)
qed

theorem default_color_rotation_witness:
  "colors (new_plotter False palette3) = palette3 \<and>
   current_color (new_plotter False palette3) = - 1 \<and>
   color_run 5 (new_plotter False palette3) = [Inr ''C0'', Inr ''C1'', Inr ''C2'', Inr ''C0'', Inr ''C1''] \<and>
   polygon_path triangle = Inr ([(4, 0), (0, 4), (0, 0), (4, 0)], [MOVETO, LINETO, LINETO, LINETO]) \<and>
   style (artists (snd (first_unnamed_plot False)) 0) = [(''fc'', ''C0'')] \<and>
   style (artists (snd (second_unnamed_plot False)) 1) = [(''fc'', ''C1'')]"
proof -
  have c: "colors (new_plotter False palette3) = palette3"
    and k: "current_color (new_plotter False palette3) = - 1"
    by (simp_all add: new_plotter_def init_colors_def)
  have h1: "colors (new_plotter False palette3) \<noteq> []"
    unfolding c by (simp add: palette3_def)
  have h2: "\<forall>entry\<in>set (colors (new_plotter False palette3)). map_of entry ''color'' \<noteq> None"
    unfolding c by (simp add: palette3_def)
  have run: "color_run 5 (new_plotter False palette3)
               = [Inr ''C0'', Inr ''C1'', Inr ''C2'', Inr ''C0'', Inr ''C1'']"
    by code_simp
  have t: "polygon_path triangle = Inr ([(4, 0), (0, 4), (0, 0), (4, 0)], [MOVETO, LINETO, LINETO, LINETO])"
    by code_simp
  have f: "style (artists (snd (first_unnamed_plot False)) 0) = [(''fc'', ''C0'')]"
          "style (artists (snd (second_unnamed_plot False)) 1) = [(''fc'', ''C1'')]"
    by code_simp+
  show ?thesis
    using default_color_rotation[OF h1 h2 k, of 5 triangle _ square] c k run t f by simp
qed

end
